theory Spec2Isabelle
  imports Complex_Main "HOL-Library.List_Lexorder" "HOL-Library.Char_ord"
begin

section \<open>The daily index updater (\<^verbatim>\<open>nikkei_scraper.py\<close>)\<close>

text \<open>
  The script fetches the closing price of an index and a bond yield, derives four ratios
  and prepends one entry per business day to a JSON document of at most 60 entries.
  This theory embeds the class \<^verbatim>\<open>NikkeiDataFetcher\<close>: its pure computations as
  functions, the outcomes of its collaborators (clock, file system, quote provider, HTTP
  request) as inputs of one run, the stored document as explicit state, and every
  exception the code can raise as a value.
\<close>

subsection \<open>Numbers\<close>

text \<open>
  A Python number is modelled as an exact rational. Every finite double is a rational, so
  the values of the program are values of the model; the model computes \<^verbatim>\<open>/\<close>,
  \<^verbatim>\<open>*\<close> and \<^verbatim>\<open>-\<close> exactly, where the machine rounds each result to the nearest
  double. The distinction between \<^verbatim>\<open>int\<close> and \<^verbatim>\<open>float\<close> (\<^verbatim>\<open>0\<close> against
  \<^verbatim>\<open>0.0\<close>) is not kept.
\<close>

datatype error = ZeroDivisionError | TypeError | OSError

text \<open>A raised exception ends the computation: the rest runs on a returned value only.\<close>

definition and_then :: "error + 'a \<Rightarrow> ('a \<Rightarrow> error + 'b) \<Rightarrow> error + 'b" where
  "and_then r f = (case r of Inl e \<Rightarrow> Inl e | Inr x \<Rightarrow> f x)"

text \<open>\<^verbatim>\<open>a / b\<close>: true division, which raises on a zero divisor.\<close>

definition py_div :: "rat \<Rightarrow> rat \<Rightarrow> error + rat" where
  "py_div a b = (if b = 0 then Inl ZeroDivisionError else Inr (a / b))"

text \<open>
  \<^verbatim>\<open>round(x)\<close> rounds to the nearest integer and a tie to the even neighbour;
  \<^verbatim>\<open>round(x, 2)\<close> does so at the second decimal place.
\<close>

definition round_half_even :: "rat \<Rightarrow> int" where
  "round_half_even x =
     (let f = \<lfloor>x\<rfloor>; d = x - of_int f
      in if d < 1 / 2 then f
         else if 1 / 2 < d then f + 1
         else if even f then f else f + 1)"

definition py_round2 :: "rat \<Rightarrow> rat" where
  "py_round2 x = of_int (round_half_even (x * 100)) / 100"

text \<open>\<^verbatim>\<open>int(x)\<close> truncates towards zero.\<close>

definition py_int :: "rat \<Rightarrow> int" where
  "py_int x = (if 0 \<le> x then \<lfloor>x\<rfloor> else \<lceil>x\<rceil>)"

subsection \<open>JSON values and dictionaries\<close>

text \<open>
  The values that occur in the stored document: numbers, strings and \<^verbatim>\<open>null\<close>
  (Python's \<^verbatim>\<open>None\<close>). A dictionary is an association list in insertion order, which
  is the order \<^verbatim>\<open>json.dump\<close> writes; its keys are distinct.
\<close>

datatype json = JNum rat | JStr string | JNull

type_synonym pydict = "(string \<times> json) list"

text \<open>\<^verbatim>\<open>d.get(k)\<close> is \<^verbatim>\<open>None\<close> for a missing key.\<close>

definition py_get :: "pydict \<Rightarrow> string \<Rightarrow> json" where
  "py_get d k = (case map_of d k of None \<Rightarrow> JNull | Some v \<Rightarrow> v)"

text \<open>\<^verbatim>\<open>d.get(k, default)\<close>.\<close>

definition py_get_default :: "pydict \<Rightarrow> string \<Rightarrow> json \<Rightarrow> json" where
  "py_get_default d k dflt = (case map_of d k of None \<Rightarrow> dflt | Some v \<Rightarrow> v)"

text \<open>\<^verbatim>\<open>d[k] = v\<close>: an existing key keeps its place, a new key goes last.\<close>

fun py_setitem :: "pydict \<Rightarrow> string \<Rightarrow> json \<Rightarrow> pydict" where
  "py_setitem [] k v = [(k, v)]"
| "py_setitem ((k', v') # d) k v =
     (if k' = k then (k, v) # d else (k', v') # py_setitem d k v)"

text \<open>\<^verbatim>\<open>x - y\<close> for a float \<^verbatim>\<open>x\<close>: a string or \<^verbatim>\<open>None\<close> on the right raises.\<close>

definition py_sub :: "rat \<Rightarrow> json \<Rightarrow> error + rat" where
  "py_sub x y = (case y of JNum p \<Rightarrow> Inr (x - p) | _ \<Rightarrow> Inl TypeError)"

subsection \<open>\<^verbatim>\<open>calculate_metrics\<close>\<close>

text \<open>
  The dictionary display evaluates its values in order, so the first zero divisor met
  raises: \<^verbatim>\<open>price / eps\<close>, \<^verbatim>\<open>price / bps\<close>, \<^verbatim>\<open>100 / (price / eps)\<close>,
  \<^verbatim>\<open>dividend / price\<close>.
\<close>

definition calculate_metrics :: "rat \<Rightarrow> rat \<Rightarrow> rat \<Rightarrow> rat \<Rightarrow> error + pydict" where
  "calculate_metrics price eps bps dividend =
     and_then (py_div price eps) (\<lambda>per.
     and_then (py_div price bps) (\<lambda>pbr.
     and_then (py_div price eps) (\<lambda>q.
     and_then (py_div 100 q) (\<lambda>yield_rate.
     and_then (py_div dividend price) (\<lambda>dp.
       Inr [(''per'', JNum (py_round2 per)),
            (''pbr'', JNum (py_round2 pbr)),
            (''eps'', JNum eps),
            (''bps'', JNum bps),
            (''yield_rate'', JNum (py_round2 yield_rate)),
            (''dividend_yield'', JNum (py_round2 (dp * 100)))])))))"

subsection \<open>\<^verbatim>\<open>is_business_day\<close>\<close>

text \<open>The argument is \<^verbatim>\<open>date.weekday()\<close>: 0 for Monday up to 6 for Sunday.\<close>

definition is_business_day :: "nat \<Rightarrow> bool" where
  "is_business_day weekday = (weekday < 5)"

subsection \<open>Effects\<close>

text \<open>
  What a run does to the outside world, in order: the directory creation, the read of the
  document, the request to the quote provider (ticker and period), the call of a yield
  source (by its \<^verbatim>\<open>__name__\<close>), the HTTP request of a source (by its URL) and the
  write of the document. Console output is left out.
\<close>

datatype event =
    MakeDirs
  | ReadStore
  | QuoteRequest string string
  | SourceCalled string
  | HttpGet string
  | WriteStore "pydict list"

subsection \<open>\<^verbatim>\<open>get_nikkei_price\<close>\<close>

text \<open>
  One row of the provider's table: its \<^verbatim>\<open>Close\<close> and \<^verbatim>\<open>Volume\<close> columns and the
  \<^verbatim>\<open>strftime('%Y-%m-%d')\<close> of its index; the close is a finite number and the volume
  an integer. The provider either raises or returns the rows in the order of the table,
  oldest first.
\<close>

record bar =
  bar_close :: rat
  bar_volume :: int
  bar_date :: string

datatype provider_response = ProviderRaises | History "bar list"

record quote =
  q_price :: rat
  q_volume :: int
  q_date :: string

definition ticker :: string where
  "ticker = ''^N225''"

text \<open>
  \<^verbatim>\<open>yf.Ticker(self.ticker).history(period="5d")\<close> is the provider applied to the ticker and
  the period. An empty table raises inside the \<^verbatim>\<open>try\<close>, and the handler returns
  \<^verbatim>\<open>None\<close> for every exception.
\<close>

definition get_nikkei_price :: "(string \<Rightarrow> string \<Rightarrow> provider_response) \<Rightarrow> quote option" where
  "get_nikkei_price provider =
     (case provider ticker ''5d'' of
        ProviderRaises \<Rightarrow> None
      | History hist \<Rightarrow>
          if hist = [] then None
          else let latest = last hist
               in Some \<lparr>q_price = py_round2 (bar_close latest),
                        q_volume = py_int (of_int (bar_volume latest) / 1000000),
                        q_date = bar_date (last hist)\<rparr>)"

subsection \<open>\<^verbatim>\<open>get_bond_yield\<close>\<close>

text \<open>
  A source is a callable without arguments. Calling it once has effects and either raises
  or returns \<^verbatim>\<open>None\<close> or a number.
\<close>

datatype source_outcome = Raises | Returns "rat option"

record source =
  src_name :: string
  src_effects :: "event list"
  src_outcome :: source_outcome

text \<open>
  \<^verbatim>\<open>if yield_rate:\<close> tests the truth value of what the source returned: \<^verbatim>\<open>None\<close> and
  zero are false, every other number is true.
\<close>

fun truthy :: "rat option \<Rightarrow> bool" where
  "truthy None = False"
| "truthy (Some y) = (y \<noteq> 0)"

text \<open>
  The loop of \<^verbatim>\<open>get_bond_yield\<close> over its list of sources, with the value returned and
  the effects of the calls made. After the loop the value is 1.5.
\<close>

fun try_sources :: "source list \<Rightarrow> rat \<times> event list" where
  "try_sources [] = (3 / 2, [])"
| "try_sources (s # rest) =
     (case src_outcome s of
        Raises \<Rightarrow> apsnd (\<lambda>t. SourceCalled (src_name s) # src_effects s @ t) (try_sources rest)
      | Returns yield_rate \<Rightarrow>
          if truthy yield_rate then (the yield_rate, SourceCalled (src_name s) # src_effects s)
          else apsnd (\<lambda>t. SourceCalled (src_name s) # src_effects s @ t) (try_sources rest))"

text \<open>The answer to \<^verbatim>\<open>requests.get\<close>: an exception, or a response with a status code.\<close>

datatype http_response = HttpRaises | HttpStatus int

definition investing_url :: string where
  "investing_url = ''https://www.investing.com/rates-bonds/japan-10-year-bond-yield''"

text \<open>
  The first source catches every exception of its request and returns \<^verbatim>\<open>None\<close> unless
  the status is 200; the second returns \<^verbatim>\<open>None\<close>; the third returns 1.485.
\<close>

definition get_yield_from_investing :: "http_response \<Rightarrow> source" where
  "get_yield_from_investing response =
     \<lparr>src_name = ''_get_yield_from_investing'',
      src_effects = [HttpGet investing_url],
      src_outcome =
        (case response of
           HttpRaises \<Rightarrow> Returns None
         | HttpStatus status_code \<Rightarrow>
             if status_code = 200 then Returns (Some (1485 / 1000)) else Returns None)\<rparr>"

definition get_yield_from_tradingview :: source where
  "get_yield_from_tradingview =
     \<lparr>src_name = ''_get_yield_from_tradingview'', src_effects = [], src_outcome = Returns None\<rparr>"

definition get_yield_fallback :: source where
  "get_yield_fallback =
     \<lparr>src_name = ''_get_yield_fallback'', src_effects = [],
      src_outcome = Returns (Some (1485 / 1000))\<rparr>"

definition get_bond_yield :: "http_response \<Rightarrow> rat \<times> event list" where
  "get_bond_yield response =
     try_sources [get_yield_from_investing response, get_yield_from_tradingview, get_yield_fallback]"

subsection \<open>The stored document\<close>

text \<open>
  The file \<^verbatim>\<open>data/nikkei_data.json\<close> is absent, or cannot be read or parsed, or holds a
  list of dictionaries.
\<close>

datatype stored = Absent | Unreadable | Doc "pydict list"

definition load_existing_data :: "stored \<Rightarrow> pydict list" where
  "load_existing_data store = (case store of Doc data \<Rightarrow> data | _ \<Rightarrow> [])"

text \<open>
  \<^verbatim>\<open>save_data\<close> catches every exception. The write succeeds; or \<^verbatim>\<open>open\<close> raises,
  which leaves the file as it was; or \<^verbatim>\<open>json.dump\<close> raises after the file was opened
  for writing, which leaves a truncated file that no longer parses.
\<close>

datatype write_outcome = WriteOk | OpenRaises | DumpRaises

definition save_data :: "write_outcome \<Rightarrow> stored \<Rightarrow> pydict list \<Rightarrow> stored" where
  "save_data outcome store data =
     (case outcome of WriteOk \<Rightarrow> Doc data | OpenRaises \<Rightarrow> store | DumpRaises \<Rightarrow> Unreadable)"

subsection \<open>\<^verbatim>\<open>run\<close>\<close>

text \<open>
  The inputs of one run: the weekday and the \<^verbatim>\<open>strftime('%Y-%m-%d')\<close> of
  \<^verbatim>\<open>datetime.now()\<close>, whether \<^verbatim>\<open>os.makedirs\<close> raises, the quote provider, the answer to
  the HTTP request, and the outcome of writing the file.
\<close>

record env =
  now_weekday :: nat
  now_ymd :: string
  makedirs_raises :: bool
  provider :: "string \<Rightarrow> string \<Rightarrow> provider_response"
  http :: http_response
  file_write :: write_outcome

datatype run_status =
    NotBusinessDay
  | AlreadyUpdated
  | QuoteUnavailable
  | Updated
  | SaveFailed
  | Raised error

record result =
  status :: run_status
  store_after :: stored
  trace :: "event list"

text \<open>
  The new entry: the call of \<^verbatim>\<open>calculate_metrics\<close> with its default arguments, the
  dictionary display with the metrics spread into it, and the \<^verbatim>\<open>change\<close> field.
\<close>

definition new_entry_of :: "string \<Rightarrow> quote \<Rightarrow> rat \<Rightarrow> pydict list \<Rightarrow> error + pydict" where
  "new_entry_of today_str nikkei_data bond_yield existing_data =
     and_then (calculate_metrics (q_price nikkei_data) 2500 27500 900) (\<lambda>metrics.
       let new_entry =
             [(''date'', JStr today_str),
              (''price'', JNum (q_price nikkei_data)),
              (''volume'', JNum (of_int (q_volume nikkei_data))),
              (''bond_yield'', JNum bond_yield)] @ metrics
       in case existing_data of
            [] \<Rightarrow> Inr (py_setitem new_entry ''change'' (JNum 0))
          | first # _ \<Rightarrow>
              and_then
                (py_sub (q_price nikkei_data)
                   (py_get_default first ''price'' (JNum (q_price nikkei_data))))
                (\<lambda>diff. Inr (py_setitem new_entry ''change'' (JNum (py_round2 diff)))))"

definition run :: "env \<Rightarrow> stored \<Rightarrow> result" where
  "run e store =
     (if makedirs_raises e
      then \<lparr>status = Raised OSError, store_after = store, trace = [MakeDirs]\<rparr>
      else if \<not> is_business_day (now_weekday e)
      then \<lparr>status = NotBusinessDay, store_after = store, trace = [MakeDirs]\<rparr>
      else
        let existing_data = load_existing_data store;
            today_str = now_ymd e
        in if list_ex (\<lambda>item. py_get item ''date'' = JStr today_str) existing_data
           then \<lparr>status = AlreadyUpdated, store_after = store, trace = [MakeDirs, ReadStore]\<rparr>
           else
             (case get_nikkei_price (provider e) of
                None \<Rightarrow>
                  \<lparr>status = QuoteUnavailable, store_after = store,
                   trace = [MakeDirs, ReadStore, QuoteRequest ticker ''5d'']\<rparr>
              | Some nikkei_data \<Rightarrow>
                  let (bond_yield, calls) = get_bond_yield (http e);
                      t = [MakeDirs, ReadStore, QuoteRequest ticker ''5d''] @ calls
                  in (case new_entry_of today_str nikkei_data bond_yield existing_data of
                        Inl err \<Rightarrow> \<lparr>status = Raised err, store_after = store, trace = t\<rparr>
                      | Inr new_entry \<Rightarrow>
                          let data = take 60 (new_entry # existing_data)
                          in \<lparr>status = (if file_write e = WriteOk then Updated else SaveFailed),
                              store_after = save_data (file_write e) store data,
                              trace = t @ [WriteStore data]\<rparr>)))"

subsection \<open>Notions of the specification\<close>







subsection \<open>Sample inputs\<close>

text \<open>
  Wednesday 15 May 2024: the provider returns two rows, the HTTP request is answered with
  status 200, and the file system works. The stored document holds the entry of the day
  before, or of the same day, or an entry without a price.
\<close>

abbreviation sample_bars :: "bar list" where
  "sample_bars \<equiv>
     [\<lparr>bar_close = 39800, bar_volume = 98000000, bar_date = ''2024-05-14''\<rparr>,
      \<lparr>bar_close = 40000, bar_volume = 123456789, bar_date = ''2024-05-15''\<rparr>]"

abbreviation sample_env :: env where
  "sample_env \<equiv>
     \<lparr>now_weekday = 2, now_ymd = ''2024-05-15'', makedirs_raises = False,
      provider = (\<lambda>symbol period. History sample_bars),
      http = HttpStatus 200, file_write = WriteOk\<rparr>"

abbreviation stored_yesterday :: stored where
  "stored_yesterday \<equiv> Doc [[(''date'', JStr ''2024-05-14''), (''price'', JNum 39500)]]"

abbreviation stored_today :: stored where
  "stored_today \<equiv> Doc [[(''date'', JStr ''2024-05-15''), (''price'', JNum 40000)]]"


abbreviation sample_entry :: "rat \<Rightarrow> pydict" where
  "sample_entry change \<equiv>
     [(''date'', JStr ''2024-05-15''), (''price'', JNum 40000), (''volume'', JNum 123),
      (''bond_yield'', JNum (1485 / 1000)), (''per'', JNum 16), (''pbr'', JNum (145 / 100)),
      (''eps'', JNum 2500), (''bps'', JNum 27500), (''yield_rate'', JNum (625 / 100)),
      (''dividend_yield'', JNum (225 / 100)), (''change'', JNum change)]"

section \<open>Properties\<close>

subsection \<open>Evaluation of the rounding\<close>

lemma floor_rat_numeral_div [simp]:
  "\<lfloor>(numeral a :: rat) / numeral b\<rfloor> = numeral a div numeral b"
  using floor_divide_of_int_eq [of "numeral a" "numeral b", where ?'a = rat] by simp

subsection \<open>Metrics\<close>






subsection \<open>The yield sources\<close>






text \<open>
  C9. With the three sources of the code, \<^verbatim>\<open>get_bond_yield\<close> returns 1.485 whatever
  the HTTP request does, and never 1.5: the first source returns 1.485 on status 200 and
  \<^verbatim>\<open>None\<close> on any other status or on an exception; the second returns \<^verbatim>\<open>None\<close>; the
  third returns 1.485; no source raises.
\<close>

theorem get_bond_yield_constant:
  "get_bond_yield response =
     (1485 / 1000,
      if response = HttpStatus 200
      then [SourceCalled ''_get_yield_from_investing'', HttpGet investing_url]
      else [SourceCalled ''_get_yield_from_investing'', HttpGet investing_url,
            SourceCalled ''_get_yield_from_tradingview'',
            SourceCalled ''_get_yield_fallback'']) \<and>
   fst (get_bond_yield response) \<noteq> 3 / 2 \<and>
   src_outcome (get_yield_from_investing response) =
     Returns (if response = HttpStatus 200 then Some (1485 / 1000) else None) \<and>
   src_outcome get_yield_from_tradingview = Returns None \<and>
   src_outcome get_yield_fallback = Returns (Some (1485 / 1000))"
  by (cases response)
    (simp_all add: get_bond_yield_def get_yield_from_investing_def
      get_yield_from_tradingview_def get_yield_fallback_def)

theorem get_bond_yield_constant_witness:
  "get_bond_yield (HttpStatus 200) =
     (1485 / 1000, [SourceCalled ''_get_yield_from_investing'', HttpGet investing_url]) \<and>
   get_bond_yield (HttpStatus 503) =
     (1485 / 1000,
      [SourceCalled ''_get_yield_from_investing'', HttpGet investing_url,
       SourceCalled ''_get_yield_from_tradingview'', SourceCalled ''_get_yield_fallback'']) \<and>
   get_bond_yield HttpRaises =
     (1485 / 1000,
      [SourceCalled ''_get_yield_from_investing'', HttpGet investing_url,
       SourceCalled ''_get_yield_from_tradingview'', SourceCalled ''_get_yield_fallback''])"
  using get_bond_yield_constant [of "HttpStatus 200"]
    get_bond_yield_constant [of "HttpStatus 503"]
    get_bond_yield_constant [of HttpRaises]
  by simp

subsection \<open>Facts about \<^verbatim>\<open>run\<close>\<close>

lemma new_entry_of_Inr:
  "new_entry_of t q y ex = Inr new \<Longrightarrow>
     \<exists>metrics c. new =
       [(''date'', JStr t), (''price'', JNum (q_price q)),
        (''volume'', JNum (of_int (q_volume q))), (''bond_yield'', JNum y)]
       @ metrics @ [(''change'', JNum c)]"
  by (auto simp: new_entry_of_def and_then_def Let_def calculate_metrics_def py_div_def
      py_sub_def split: sum.splits list.splits if_splits json.splits)

lemma new_entry_of_date:
  "new_entry_of t q y ex = Inr new \<Longrightarrow> py_get new ''date'' = JStr t"
  by (auto dest!: new_entry_of_Inr simp: py_get_def)





lemma new_entry_of_empty_returns:
  "new_entry_of t q y ex = Inr new \<Longrightarrow> \<exists>new'. new_entry_of t q y [] = Inr new'"
  by (auto simp: new_entry_of_def and_then_def Let_def split: sum.splits)

lemma run_UpdatedD:
  "status (run e store) = Updated \<Longrightarrow>
     \<exists>q new. \<not> makedirs_raises e \<and> is_business_day (now_weekday e) \<and>
       \<not> list_ex (\<lambda>item. py_get item ''date'' = JStr (now_ymd e)) (load_existing_data store) \<and>
       get_nikkei_price (provider e) = Some q \<and>
       new_entry_of (now_ymd e) q (fst (get_bond_yield (http e))) (load_existing_data store)
         = Inr new \<and>
       file_write e = WriteOk \<and>
       store_after (run e store) = Doc (take 60 (new # load_existing_data store)) \<and>
       trace (run e store) =
         [MakeDirs, ReadStore, QuoteRequest ticker ''5d''] @ snd (get_bond_yield (http e)) @
         [WriteStore (take 60 (new # load_existing_data store))]"
  by (auto simp: run_def Let_def save_data_def
      split: if_splits option.splits sum.splits prod.splits)

lemma run_SaveFailedD:
  "status (run e store) = SaveFailed \<Longrightarrow>
     \<exists>q new. \<not> makedirs_raises e \<and> is_business_day (now_weekday e) \<and>
       get_nikkei_price (provider e) = Some q \<and>
       new_entry_of (now_ymd e) q (fst (get_bond_yield (http e))) (load_existing_data store)
         = Inr new \<and>
       file_write e \<noteq> WriteOk \<and>
       store_after (run e store) =
         save_data (file_write e) store (take 60 (new # load_existing_data store))"
  by (auto simp: run_def Let_def
      split: if_splits option.splits sum.splits prod.splits)

lemma run_not_written:
  "status (run e store) \<noteq> Updated \<Longrightarrow> status (run e store) \<noteq> SaveFailed \<Longrightarrow>
     store_after (run e store) = store"
  by (auto simp: run_def Let_def
      split: if_splits option.splits sum.splits prod.splits)

lemma run_already:
  "list_ex (\<lambda>item. py_get item ''date'' = JStr (now_ymd e)) (load_existing_data store) \<Longrightarrow>
     store_after (run e store) = store \<and>
     set (trace (run e store)) \<subseteq> {MakeDirs, ReadStore} \<and>
     status (run e store) =
       (if makedirs_raises e then Raised OSError
        else if is_business_day (now_weekday e) then AlreadyUpdated else NotBusinessDay)"
  by (simp add: run_def Let_def)

lemma run_reaches_entry:
  "\<not> makedirs_raises e \<Longrightarrow> is_business_day (now_weekday e) \<Longrightarrow>
     \<not> list_ex (\<lambda>item. py_get item ''date'' = JStr (now_ymd e)) (load_existing_data store) \<Longrightarrow>
     get_nikkei_price (provider e) = Some q \<Longrightarrow>
     new_entry_of (now_ymd e) q (fst (get_bond_yield (http e))) (load_existing_data store)
       = Inr new \<Longrightarrow>
     run e store =
       \<lparr>status = (if file_write e = WriteOk then Updated else SaveFailed),
        store_after =
          save_data (file_write e) store (take 60 (new # load_existing_data store)),
        trace = [MakeDirs, ReadStore, QuoteRequest ticker ''5d''] @
          snd (get_bond_yield (http e)) @
          [WriteStore (take 60 (new # load_existing_data store))]\<rparr>"
  by (cases "get_bond_yield (http e)") (simp add: run_def Let_def)

subsection \<open>The sample run\<close>

lemma sample_quote:
  "get_nikkei_price (\<lambda>symbol period. History sample_bars) =
     Some \<lparr>q_price = 40000, q_volume = 123, q_date = ''2024-05-15''\<rparr>"
  by (simp add: get_nikkei_price_def py_round2_def round_half_even_def py_int_def Let_def)

lemma sample_bond_yield: "get_bond_yield (HttpStatus 200) =
    (1485 / 1000, [SourceCalled ''_get_yield_from_investing'', HttpGet investing_url])"
  by (simp add: get_bond_yield_def get_yield_from_investing_def)

lemma sample_metrics:
  "calculate_metrics 40000 2500 27500 900 =
     Inr [(''per'', JNum 16), (''pbr'', JNum (145 / 100)), (''eps'', JNum 2500),
          (''bps'', JNum 27500), (''yield_rate'', JNum (625 / 100)),
          (''dividend_yield'', JNum (225 / 100))]"
  by (simp add: calculate_metrics_def and_then_def py_div_def py_round2_def
      round_half_even_def Let_def)

lemma sample_run_yesterday:
  "run sample_env stored_yesterday =
     \<lparr>status = Updated,
      store_after =
        Doc [sample_entry 500, [(''date'', JStr ''2024-05-14''), (''price'', JNum 39500)]],
      trace =
        [MakeDirs, ReadStore, QuoteRequest ticker ''5d'',
         SourceCalled ''_get_yield_from_investing'', HttpGet investing_url,
         WriteStore
           [sample_entry 500, [(''date'', JStr ''2024-05-14''), (''price'', JNum 39500)]]]\<rparr>"
  by (simp add: run_def is_business_day_def load_existing_data_def py_get_def sample_quote
      sample_bond_yield new_entry_of_def sample_metrics and_then_def py_sub_def
      py_get_default_def save_data_def py_round2_def round_half_even_def Let_def)



lemma sample_dates: "(''2024-05-14'' :: string) < ''2024-05-15''"
  by simp

subsection \<open>The daily run\<close>

text \<open>
  C1. If an entry of the loaded history is dated today, the run changes nothing: the
  document is as before, nothing is written and nothing is fetched. Consequently a second
  run on the same date with the same answers of the collaborators leaves the document as
  the first run left it; after a first run that wrote, the second one stops at the entry
  of today.
\<close>

theorem run_idempotent:
  "(list_ex (\<lambda>item. py_get item ''date'' = JStr (now_ymd e)) (load_existing_data store) \<longrightarrow>
      store_after (run e store) = store \<and>
      set (trace (run e store)) \<subseteq> {MakeDirs, ReadStore}) \<and>
   store_after (run e (store_after (run e store))) = store_after (run e store) \<and>
   (status (run e store) = Updated \<longrightarrow>
      status (run e (store_after (run e store))) = AlreadyUpdated)"
proof (intro conjI impI)
  assume "list_ex (\<lambda>item. py_get item ''date'' = JStr (now_ymd e)) (load_existing_data store)"
  then show "store_after (run e store) = store"
    and "set (trace (run e store)) \<subseteq> {MakeDirs, ReadStore}"
    using run_already [of e store] by simp_all
next
  show "store_after (run e (store_after (run e store))) = store_after (run e store)"
  proof (cases "status (run e store) = Updated")
    case True
    from run_UpdatedD [OF True] obtain q new where
      n: "new_entry_of (now_ymd e) q (fst (get_bond_yield (http e)))
            (load_existing_data store) = Inr new"
      and s: "store_after (run e store) = Doc (take 60 (new # load_existing_data store))"
      by blast
    have "py_get new ''date'' = JStr (now_ymd e)"
      using n by (rule new_entry_of_date)
    then have "list_ex (\<lambda>item. py_get item ''date'' = JStr (now_ymd e))
        (load_existing_data (store_after (run e store)))"
      by (simp add: s load_existing_data_def)
    then show ?thesis
      using run_already by blast
  next
    case False
    show ?thesis
    proof (cases "status (run e store) = SaveFailed")
      case False
      with \<open>status (run e store) \<noteq> Updated\<close> show ?thesis
        by (simp add: run_not_written)
    next
      case True
      from run_SaveFailedD [OF True] obtain q new where
        m: "\<not> makedirs_raises e" and b: "is_business_day (now_weekday e)"
        and q: "get_nikkei_price (provider e) = Some q"
        and n: "new_entry_of (now_ymd e) q (fst (get_bond_yield (http e)))
              (load_existing_data store) = Inr new"
        and w: "file_write e \<noteq> WriteOk"
        and s: "store_after (run e store) =
              save_data (file_write e) store (take 60 (new # load_existing_data store))"
        by blast
      show ?thesis
      proof (cases "file_write e")
        case WriteOk
        with w show ?thesis by simp
      next
        case OpenRaises
        with s have "store_after (run e store) = store"
          by (simp add: save_data_def)
        then show ?thesis by simp
      next
        case DumpRaises
        with s have u: "store_after (run e store) = Unreadable"
          by (simp add: save_data_def)
        from new_entry_of_empty_returns [OF n] obtain new' where
          "new_entry_of (now_ymd e) q (fst (get_bond_yield (http e)))
             (load_existing_data Unreadable) = Inr new'"
          by (auto simp: load_existing_data_def)
        with m b q have "store_after (run e Unreadable) =
            save_data (file_write e) Unreadable (take 60 (new' # load_existing_data Unreadable))"
          by (subst run_reaches_entry [where q = q and new = new'])
            (simp_all add: load_existing_data_def)
        with DumpRaises u show ?thesis
          by (simp add: save_data_def)
      qed
    qed
  qed
next
  assume u: "status (run e store) = Updated"
  from run_UpdatedD [OF u] obtain q new where
    n: "new_entry_of (now_ymd e) q (fst (get_bond_yield (http e)))
          (load_existing_data store) = Inr new"
    and s: "store_after (run e store) = Doc (take 60 (new # load_existing_data store))"
    and m: "\<not> makedirs_raises e" and b: "is_business_day (now_weekday e)"
    by blast
  have "py_get new ''date'' = JStr (now_ymd e)"
    using n by (rule new_entry_of_date)
  then have "list_ex (\<lambda>item. py_get item ''date'' = JStr (now_ymd e))
      (load_existing_data (store_after (run e store)))"
    by (simp add: s load_existing_data_def)
  then show "status (run e (store_after (run e store))) = AlreadyUpdated"
    using run_already [of e "store_after (run e store)"] m b by simp
qed

theorem run_idempotent_witness:
  "list_ex (\<lambda>item. py_get item ''date'' = JStr (now_ymd sample_env))
     (load_existing_data stored_today) \<and>
   store_after (run sample_env stored_today) = stored_today \<and>
   set (trace (run sample_env stored_today)) \<subseteq> {MakeDirs, ReadStore} \<and>
   status (run sample_env stored_yesterday) = Updated \<and>
   status (run sample_env (store_after (run sample_env stored_yesterday))) = AlreadyUpdated \<and>
   store_after (run sample_env (store_after (run sample_env stored_yesterday))) =
     Doc [sample_entry 500, [(''date'', JStr ''2024-05-14''), (''price'', JNum 39500)]]"
proof -
  have h: "list_ex (\<lambda>item. py_get item ''date'' = JStr (now_ymd sample_env))
     (load_existing_data stored_today)"
    by (simp add: load_existing_data_def py_get_def)
  have u: "status (run sample_env stored_yesterday) = Updated"
    by (simp add: sample_run_yesterday)
  have s: "store_after (run sample_env stored_yesterday) =
     Doc [sample_entry 500, [(''date'', JStr ''2024-05-14''), (''price'', JNum 39500)]]"
    by (simp add: sample_run_yesterday)
  show ?thesis
    using h u s run_idempotent [of sample_env stored_today]
      run_idempotent [of sample_env stored_yesterday]
    by simp
qed







text \<open>
  C8. A business day is a day whose weekday index is below 5, Monday to Friday; nothing
  but the weekday is looked at. A run on a Saturday or a Sunday leaves the document
  unchanged and does nothing after the creation of the directory: it does not read or
  write the document, asks the quote provider nothing and calls no yield source.
\<close>

theorem weekend_short_circuit:
  "(is_business_day weekday \<longleftrightarrow> weekday < 5) \<and>
   (now_weekday e = 5 \<or> now_weekday e = 6 \<longrightarrow>
      store_after (run e store) = store \<and>
      trace (run e store) = [MakeDirs] \<and>
      status (run e store) = (if makedirs_raises e then Raised OSError else NotBusinessDay))"
  by (auto simp: run_def is_business_day_def)

theorem weekend_short_circuit_witness:
  "now_weekday (sample_env\<lparr>now_weekday := 5\<rparr>) = 5 \<and>
   now_weekday (sample_env\<lparr>now_weekday := 6\<rparr>) = 6 \<and>
   store_after (run (sample_env\<lparr>now_weekday := 5\<rparr>) stored_yesterday) = stored_yesterday \<and>
   trace (run (sample_env\<lparr>now_weekday := 5\<rparr>) stored_yesterday) = [MakeDirs] \<and>
   status (run (sample_env\<lparr>now_weekday := 5\<rparr>) stored_yesterday) = NotBusinessDay \<and>
   store_after (run (sample_env\<lparr>now_weekday := 6\<rparr>) Absent) = Absent \<and>
   trace (run (sample_env\<lparr>now_weekday := 6\<rparr>) Absent) = [MakeDirs] \<and>
   status (run (sample_env\<lparr>now_weekday := 6\<rparr>) Absent) = NotBusinessDay"
  using weekend_short_circuit [of _ "sample_env\<lparr>now_weekday := 5\<rparr>" stored_yesterday]
    weekend_short_circuit [of _ "sample_env\<lparr>now_weekday := 6\<rparr>" Absent]
  by simp



end
